theory Spec2Isabelle
  imports Complex_Main "HOL-Library.AList"
begin

section \<open>Data model\<close>

text \<open>
  The enum \<^verbatim>\<open>Severity\<close> of \<^verbatim>\<open>app/models/common_models.py\<close>.
\<close>

datatype Severity = CRITICAL | HIGH | MEDIUM | LOW | INFO

text \<open>
  A finding is the dictionary every adapter of \<^verbatim>\<open>incident_analyzer.py\<close> builds: the keys
  \<^verbatim>\<open>type\<close>, \<^verbatim>\<open>severity\<close>, \<^verbatim>\<open>resource\<close>, \<^verbatim>\<open>description\<close> and \<^verbatim>\<open>suggested_actions\<close>
  are always present. \<^verbatim>\<open>resource\<close> is \<^verbatim>\<open>None\<close> when a firing alert carries no instance
  label; \<^verbatim>\<open>sample_messages\<close> is a key of the log findings only.
\<close>

record finding =
  finding_type :: string
  finding_severity :: Severity
  finding_resource :: "string option"
  finding_description :: string
  suggested_actions :: "string list"
  sample_messages :: "string list option"

text \<open>
  The dictionary returned by \<^verbatim>\<open>_determine_root_cause\<close>. The float literals
  \<^verbatim>\<open>1.0\<close>, \<^verbatim>\<open>0.9\<close>, \<^verbatim>\<open>0.7\<close>, \<^verbatim>\<open>0.5\<close> are the decimals they are written as.
\<close>

record root_cause_analysis =
  rc_root_cause :: string
  rc_confidence :: real
  rc_severity :: Severity

record step =
  step_no :: nat
  action :: string
  estimated_duration :: nat
  critical :: bool
  related_finding :: "string option"

record action_plan =
  plan_root_cause :: string
  total_steps :: nat
  estimated_total_duration :: nat
  critical_steps :: "step list"
  plan_steps :: "step list"

section \<open>Root-cause ranking: \<^verbatim>\<open>IncidentAnalyzer._determine_root_cause\<close>\<close>

text \<open>
  The two list comprehensions are filters; \<^verbatim>\<open>xs[0]\<close> is read only under the guard
  \<^verbatim>\<open>if xs:\<close>, where it is the head.
\<close>

definition determine_root_cause :: "finding list \<Rightarrow> root_cause_analysis" where
  "determine_root_cause findings =
     (if findings = [] then
        \<lparr>rc_root_cause = ''No issues detected'', rc_confidence = 1, rc_severity = INFO\<rparr>
      else
        let critical_findings = filter (\<lambda>f. finding_severity f = CRITICAL) findings;
            high_findings = filter (\<lambda>f. finding_severity f = HIGH) findings
        in if critical_findings \<noteq> [] then
             \<lparr>rc_root_cause = finding_description (hd critical_findings),
              rc_confidence = 9 / 10, rc_severity = CRITICAL\<rparr>
           else if high_findings \<noteq> [] then
             \<lparr>rc_root_cause = finding_description (hd high_findings),
              rc_confidence = 7 / 10, rc_severity = HIGH\<rparr>
           else
             \<lparr>rc_root_cause = finding_description (hd findings),
              rc_confidence = 1 / 2, rc_severity = MEDIUM\<rparr>)"

section \<open>Action plan: \<^verbatim>\<open>IncidentAnalyzer._generate_action_plan\<close>\<close>

text \<open>
  The inner loop \<^verbatim>\<open>for j, action in enumerate(finding["suggested_actions"][:2])\<close>: each
  action is appended to \<^verbatim>\<open>steps\<close> with the number \<^verbatim>\<open>len(steps) + 1\<close>.
\<close>

fun append_actions :: "finding \<Rightarrow> string list \<Rightarrow> step list \<Rightarrow> step list" where
  "append_actions finding [] steps = steps"
| "append_actions finding (a # as) steps =
     append_actions finding as
       (steps @ [\<lparr>step_no = length steps + 1, action = a, estimated_duration = 15,
                  critical = False, related_finding = Some (finding_type finding)\<rparr>])"

text \<open>
  The outer loop \<^verbatim>\<open>for i, finding in enumerate(findings[:3])\<close> with its guard
  \<^verbatim>\<open>if finding.get("suggested_actions")\<close> (a non-empty list is truthy).
\<close>

fun append_findings :: "finding list \<Rightarrow> step list \<Rightarrow> step list" where
  "append_findings [] steps = steps"
| "append_findings (finding # rest) steps =
     append_findings rest
       (if suggested_actions finding \<noteq> []
        then append_actions finding (take 2 (suggested_actions finding)) steps
        else steps)"

definition acknowledge_step :: step where
  "acknowledge_step =
     \<lparr>step_no = 1, action = ''Acknowledge the incident and assess impact'',
      estimated_duration = 5, critical = True, related_finding = None\<rparr>"

definition gather_step :: step where
  "gather_step =
     \<lparr>step_no = 2, action = ''Gather additional context and metrics'',
      estimated_duration = 10, critical = True, related_finding = None\<rparr>"

definition verify_step :: "nat \<Rightarrow> step" where
  "verify_step n =
     \<lparr>step_no = n, action = ''Verify resolution and monitor system stability'',
      estimated_duration = 10, critical = True, related_finding = None\<rparr>"

definition generate_action_plan :: "string \<Rightarrow> finding list \<Rightarrow> action_plan" where
  "generate_action_plan root_cause findings =
     (let steps0 = [] @ [acknowledge_step];
          steps1 = steps0 @ [gather_step];
          steps2 = append_findings (take 3 findings) steps1;
          steps3 = steps2 @ [verify_step (length steps2 + 1)]
      in \<lparr>plan_root_cause = root_cause,
          total_steps = length steps3,
          estimated_total_duration = sum_list (map estimated_duration steps3),
          critical_steps = filter critical steps3,
          plan_steps = steps3\<rparr>)"

text \<open>
  The finding-derived part of a plan as the specification describes it: the first two
  suggested actions of each of the first three findings, each paired with the type of
  its finding.
\<close>

definition derived_actions :: "finding list \<Rightarrow> (string \<times> string) list" where
  "derived_actions findings =
     concat (map (\<lambda>f. map (\<lambda>a. (a, finding_type f)) (take 2 (suggested_actions f)))
                 (take 3 findings))"

definition derived_step :: "nat \<Rightarrow> string \<times> string \<Rightarrow> step" where
  "derived_step n p =
     \<lparr>step_no = n, action = fst p, estimated_duration = 15, critical = False,
      related_finding = Some (snd p)\<rparr>"

text \<open>Numbers the steps of a list consecutively from \<open>n\<close>.\<close>

fun numbered_steps :: "nat \<Rightarrow> (string \<times> string) list \<Rightarrow> step list" where
  "numbered_steps n [] = []"
| "numbered_steps n (p # ps) = derived_step n p # numbered_steps (Suc n) ps"

section \<open>The metrics collector: \<^verbatim>\<open>metrics_collector.py\<close>\<close>

text \<open>
  A \<^verbatim>\<open>datetime\<close> is its number of microseconds since the epoch; a \<^verbatim>\<open>timedelta\<close> is a
  number of microseconds.
\<close>

type_synonym time = int

definition hours :: "int \<Rightarrow> int" where
  "hours h = h * 3600000000"

definition minutes :: "int \<Rightarrow> int" where
  "minutes m = m * 60000000"

text \<open>\<^verbatim>\<open>d.get(key, default)\<close>, the lookup \<^verbatim>\<open>d.get(key)\<close> being \<open>None\<close> for a missing key.\<close>

definition get_default :: "'a option \<Rightarrow> 'a \<Rightarrow> 'a" where
  "get_default v d = (case v of None \<Rightarrow> d | Some x \<Rightarrow> x)"

text \<open>
  The dictionaries built by \<^verbatim>\<open>_collect_cluster_metrics\<close>, \<^verbatim>\<open>_collect_node_metrics\<close> and
  \<^verbatim>\<open>_collect_pod_metrics\<close>: every key is optional, a percentage is a float (a finite
  float is the real number it denotes; it is only compared with integer thresholds).
\<close>

record cluster_metrics =
  cpu_usage_percent :: "real option"
  memory_usage_percent :: "real option"
  total_pods :: "int option"
  total_nodes :: "int option"
  ready_nodes :: "int option"

record node_metrics =
  node_cpu_usage_percent :: "real option"
  node_memory_usage_percent :: "real option"
  node_disk_usage_percent :: "real option"

record pod_metrics =
  pod_metrics_namespace :: string
  pod_metrics_pod :: string
  cpu_usage_seconds :: "real option"
  memory_usage_bytes :: "real option"

text \<open>
  The value stored under \<^verbatim>\<open>"metrics"\<close> is one of the three dictionaries; the per-node and
  per-pod dictionaries keep their insertion order.
\<close>

datatype metrics =
  ClusterMetrics cluster_metrics
| NodeMetrics "(string \<times> node_metrics) list"
| PodMetrics "(string \<times> pod_metrics) list"

record metrics_entry =
  entry_timestamp :: time
  entry_metrics :: metrics

record anomaly =
  anomaly_type :: string
  anomaly_severity :: string
  anomaly_resource :: "string option"
  anomaly_metric :: string
  anomaly_value :: real
  anomaly_threshold :: int
  anomaly_timestamp :: time

text \<open>
  The fields of \<^verbatim>\<open>MetricsCollector\<close> that the sampler reads and writes. The task handle
  \<^verbatim>\<open>_collection_task\<close> is the index of the task among the tasks of the event loop.
  \<^verbatim>\<open>_collected_metrics\<close> is a dictionary: an association list in insertion order.
\<close>

record MetricsCollector =
  is_running :: bool
  collection_task :: "nat option"
  collected_metrics :: "(string \<times> metrics_entry) list"
  anomalies :: "anomaly list"

text \<open>\<^verbatim>\<open>MetricsCollector.__init__\<close>.\<close>

definition new_collector :: MetricsCollector where
  "new_collector =
     \<lparr>is_running = False, collection_task = None, collected_metrics = [], anomalies = []\<rparr>"

definition empty_cluster_metrics :: cluster_metrics where
  "empty_cluster_metrics =
     \<lparr>cpu_usage_percent = None, memory_usage_percent = None, total_pods = None,
      total_nodes = None, ready_nodes = None\<rparr>"

text \<open>
  \<^verbatim>\<open>self._collected_metrics.get("cluster", {}).get("metrics", {})\<close> and its two siblings.
  A dictionary of another shape has none of the keys read afterwards, as the empty one.
\<close>

definition stored_cluster_metrics :: "(string \<times> metrics_entry) list \<Rightarrow> cluster_metrics" where
  "stored_cluster_metrics d =
     (case map_of d ''cluster'' of
        None \<Rightarrow> empty_cluster_metrics
      | Some e \<Rightarrow> (case entry_metrics e of ClusterMetrics c \<Rightarrow> c | _ \<Rightarrow> empty_cluster_metrics))"

definition stored_node_metrics ::
  "(string \<times> metrics_entry) list \<Rightarrow> (string \<times> node_metrics) list" where
  "stored_node_metrics d =
     (case map_of d ''nodes'' of
        None \<Rightarrow> []
      | Some e \<Rightarrow> (case entry_metrics e of NodeMetrics n \<Rightarrow> n | _ \<Rightarrow> []))"

definition stored_pod_metrics ::
  "(string \<times> metrics_entry) list \<Rightarrow> (string \<times> pod_metrics) list" where
  "stored_pod_metrics d =
     (case map_of d ''pods'' of
        None \<Rightarrow> []
      | Some e \<Rightarrow> (case entry_metrics e of PodMetrics q \<Rightarrow> q | _ \<Rightarrow> []))"

subsection \<open>\<^verbatim>\<open>_detect_anomalies\<close>\<close>

text \<open>
  The body of \<^verbatim>\<open>for node_name, metrics in node_metrics.items()\<close>. The value stored is
  \<^verbatim>\<open>metrics["cpu_usage_percent"]\<close>, read under a guard that the key exists.
\<close>

definition check_node ::
  "time \<Rightarrow> string \<times> node_metrics \<Rightarrow> anomaly list \<Rightarrow> anomaly list" where
  "check_node current_time item found =
     (let node_name = fst item; m = snd item;
          found1 =
            (if get_default (node_cpu_usage_percent m) 0 > 90 then
               found @ [\<lparr>anomaly_type = ''high_node_cpu'', anomaly_severity = ''critical'',
                          anomaly_resource = Some (''node/'' @ node_name),
                          anomaly_metric = ''node_cpu_usage'',
                          anomaly_value = get_default (node_cpu_usage_percent m) 0,
                          anomaly_threshold = 90, anomaly_timestamp = current_time\<rparr>]
             else found);
          found2 =
            (if get_default (node_memory_usage_percent m) 0 > 95 then
               found1 @ [\<lparr>anomaly_type = ''high_node_memory'', anomaly_severity = ''critical'',
                           anomaly_resource = Some (''node/'' @ node_name),
                           anomaly_metric = ''node_memory_usage'',
                           anomaly_value = get_default (node_memory_usage_percent m) 0,
                           anomaly_threshold = 95, anomaly_timestamp = current_time\<rparr>]
             else found1)
      in found2)"

text \<open>
  The local list \<^verbatim>\<open>anomalies\<close> of \<^verbatim>\<open>_detect_anomalies\<close>: what one sampling tick emits
  (each element is also logged as a warning).
\<close>

definition detected_anomalies :: "(string \<times> metrics_entry) list \<Rightarrow> time \<Rightarrow> anomaly list" where
  "detected_anomalies d current_time =
     (let found0 = [];
          c = stored_cluster_metrics d;
          found1 =
            (if get_default (cpu_usage_percent c) 0 > 80 then
               found0 @ [\<lparr>anomaly_type = ''high_cluster_cpu'', anomaly_severity = ''high'',
                           anomaly_resource = None, anomaly_metric = ''cluster_cpu_usage'',
                           anomaly_value = get_default (cpu_usage_percent c) 0,
                           anomaly_threshold = 80, anomaly_timestamp = current_time\<rparr>]
             else found0);
          found2 =
            (if get_default (memory_usage_percent c) 0 > 85 then
               found1 @ [\<lparr>anomaly_type = ''high_cluster_memory'', anomaly_severity = ''high'',
                           anomaly_resource = None, anomaly_metric = ''cluster_memory_usage'',
                           anomaly_value = get_default (memory_usage_percent c) 0,
                           anomaly_threshold = 85, anomaly_timestamp = current_time\<rparr>]
             else found1)
      in fold (check_node current_time) (stored_node_metrics d) found2)"

text \<open>The slice \<^verbatim>\<open>xs[-n:]\<close> for a positive \<open>n\<close>: the last \<open>n\<close> elements, all of a shorter list.\<close>

definition slice_last :: "nat \<Rightarrow> 'a list \<Rightarrow> 'a list" where
  "slice_last n xs = drop (length xs - n) xs"

definition detect_anomalies :: "MetricsCollector \<Rightarrow> time \<Rightarrow> MetricsCollector" where
  "detect_anomalies c current_time =
     (let found = detected_anomalies (collected_metrics c) current_time;
          extended = anomalies c @ found
      in c\<lparr>anomalies := (if length extended > 100 then slice_last 100 extended else extended)\<rparr>)"

subsection \<open>\<^verbatim>\<open>_clean_old_metrics\<close>\<close>

text \<open>
  The loop over \<^verbatim>\<open>list(self._collected_metrics.keys())\<close>. A key that is no longer in
  the dictionary raises \<^verbatim>\<open>KeyError\<close>, which the enclosing \<^verbatim>\<open>try\<close> catches: the loop stops.
\<close>

fun clean_loop ::
  "string list \<Rightarrow> time \<Rightarrow> (string \<times> metrics_entry) list \<Rightarrow> (string \<times> metrics_entry) list" where
  "clean_loop [] cutoff_time d = d"
| "clean_loop (metric_type # rest) cutoff_time d =
     (case map_of d metric_type of
        None \<Rightarrow> d
      | Some e \<Rightarrow>
          clean_loop rest cutoff_time
            (if entry_timestamp e < cutoff_time then AList.delete metric_type d else d))"

definition clean_old_metrics :: "MetricsCollector \<Rightarrow> time \<Rightarrow> MetricsCollector" where
  "clean_old_metrics c now =
     (let cutoff_time = now - hours 6
      in c\<lparr>collected_metrics :=
             clean_loop (map fst (collected_metrics c)) cutoff_time (collected_metrics c)\<rparr>)"

subsection \<open>\<^verbatim>\<open>_collect_all_metrics\<close>: one sampling tick\<close>

text \<open>
  The three collectors end in \<^verbatim>\<open>except Exception: return {}\<close>, so a tick is determined by
  the dictionaries they return and by the three readings of \<^verbatim>\<open>datetime.utcnow()\<close>: at the
  start of the tick, in \<^verbatim>\<open>_detect_anomalies\<close> and in \<^verbatim>\<open>_clean_old_metrics\<close>. \<open>store_tick\<close>
  is the three assignments to \<^verbatim>\<open>self._collected_metrics\<close>.
\<close>

record tick =
  tick_timestamp :: time
  tick_cluster :: cluster_metrics
  tick_nodes :: "(string \<times> node_metrics) list"
  tick_pods :: "(string \<times> pod_metrics) list"
  tick_detect_time :: time
  tick_clean_time :: time

definition store_tick ::
  "(string \<times> metrics_entry) list \<Rightarrow> tick \<Rightarrow> (string \<times> metrics_entry) list" where
  "store_tick d t =
     (let d1 = AList.update ''cluster''
                 \<lparr>entry_timestamp = tick_timestamp t,
                  entry_metrics = ClusterMetrics (tick_cluster t)\<rparr> d;
          d2 = AList.update ''nodes''
                 \<lparr>entry_timestamp = tick_timestamp t,
                  entry_metrics = NodeMetrics (tick_nodes t)\<rparr> d1;
          d3 = AList.update ''pods''
                 \<lparr>entry_timestamp = tick_timestamp t,
                  entry_metrics = PodMetrics (tick_pods t)\<rparr> d2
      in d3)"

definition collect_all_metrics :: "MetricsCollector \<Rightarrow> tick \<Rightarrow> MetricsCollector" where
  "collect_all_metrics c t =
     (let c1 = c\<lparr>collected_metrics := store_tick (collected_metrics c) t\<rparr>;
          c2 = detect_anomalies c1 (tick_detect_time t)
      in clean_old_metrics c2 (tick_clean_time t))"

text \<open>The sampler's ticks in sequence, from a given state.\<close>

definition run_ticks :: "MetricsCollector \<Rightarrow> tick list \<Rightarrow> MetricsCollector" where
  "run_ticks c ts = fold (\<lambda>t c'. collect_all_metrics c' t) ts c"

text \<open>
  The keys that \<^verbatim>\<open>_collect_all_metrics\<close> assigns, and the invariant of the store: a
  dictionary (no key twice) with these keys only.
\<close>

definition store_keys :: "string set" where
  "store_keys = {''cluster'', ''nodes'', ''pods''}"

definition store_inv :: "MetricsCollector \<Rightarrow> bool" where
  "store_inv c \<longleftrightarrow> distinct (map fst (collected_metrics c)) \<and>
     fst ` set (collected_metrics c) \<subseteq> store_keys"

text \<open>A sampling tick used in the examples.\<close>

definition sample_tick :: tick where
  "sample_tick =
     \<lparr>tick_timestamp = 1000,
      tick_cluster = \<lparr>cpu_usage_percent = Some 85, memory_usage_percent = Some 70,
                      total_pods = Some 12, total_nodes = Some 3, ready_nodes = Some 3\<rparr>,
      tick_nodes = [(''n1'', \<lparr>node_cpu_usage_percent = Some 95,
                              node_memory_usage_percent = Some 50,
                              node_disk_usage_percent = None\<rparr>)],
      tick_pods = [],
      tick_detect_time = 2000,
      tick_clean_time = 3000\<rparr>"

subsection \<open>\<^verbatim>\<open>get_metrics_summary\<close>\<close>

record summary =
  summary_timestamp :: time
  cluster_health_score :: int
  summary_cluster_metrics :: cluster_metrics
  node_count :: nat
  pod_count :: nat
  recent_anomalies :: nat
  metrics_age_minutes :: real

text \<open>
  A call reads \<^verbatim>\<open>datetime.utcnow()\<close> several times; \<open>clock k\<close> is the reading number \<open>k\<close>
  of the call. The list comprehension of \<^verbatim>\<open>recent_anomalies\<close> reads the clock once for
  each anomaly of the log.
\<close>

fun recent_loop :: "anomaly list \<Rightarrow> (nat \<Rightarrow> time) \<Rightarrow> nat \<Rightarrow> anomaly list" where
  "recent_loop [] clock k = []"
| "recent_loop (a # rest) clock k =
     (if anomaly_timestamp a > clock k - minutes 30 then [a] else []) @
     recent_loop rest clock (Suc k)"

text \<open>\<^verbatim>\<open>_get_metrics_age_minutes\<close>; \<^verbatim>\<open>age.total_seconds() / 60\<close> as a real number.\<close>

definition get_metrics_age_minutes :: "(string \<times> metrics_entry) list \<Rightarrow> time \<Rightarrow> real" where
  "get_metrics_age_minutes d now =
     (case map (\<lambda>p. entry_timestamp (snd p)) d of
        [] \<Rightarrow> 0
      | t # ts \<Rightarrow> real_of_int (now - fold max ts t) / 1000000 / 60)"

text \<open>
  The statements of \<^verbatim>\<open>get_metrics_summary\<close> that compute \<^verbatim>\<open>health_score\<close>, in their order.
\<close>

definition health_score :: "cluster_metrics \<Rightarrow> int" where
  "health_score c =
     (let score0 = 100;
          score1 = (if get_default (cpu_usage_percent c) 0 > 80 then score0 - 20 else score0);
          score2 = (if get_default (memory_usage_percent c) 0 > 85 then score1 - 20 else score1);
          score3 = (if get_default (ready_nodes c) 0 < get_default (total_nodes c) 1
                    then score2 - 30 else score2)
      in max 0 score3)"

text \<open>
  The summary dictionary; its entries are evaluated in the order in which they are
  written, so the timestamp is reading 0 of the clock, the comprehension takes the
  readings from 1, and the age takes the next one. Nothing in the body raises on a
  state of the collector, so the handler that returns the empty dictionary is not run.
\<close>

definition get_metrics_summary :: "MetricsCollector \<Rightarrow> (nat \<Rightarrow> time) \<Rightarrow> summary" where
  "get_metrics_summary c clock =
     (let cm = stored_cluster_metrics (collected_metrics c);
          nm = stored_node_metrics (collected_metrics c);
          pm = stored_pod_metrics (collected_metrics c)
      in \<lparr>summary_timestamp = clock 0,
          cluster_health_score = health_score cm,
          summary_cluster_metrics = cm,
          node_count = length nm,
          pod_count = length pm,
          recent_anomalies = length (recent_loop (anomalies c) clock 1),
          metrics_age_minutes =
            get_metrics_age_minutes (collected_metrics c)
              (clock (Suc (length (anomalies c))))\<rparr>)"

text \<open>A clock that shows the same instant at every reading.\<close>

definition stopped_clock :: "time \<Rightarrow> nat \<Rightarrow> time" where
  "stopped_clock t k = t"


subsection \<open>\<^verbatim>\<open>start\<close> and \<^verbatim>\<open>stop\<close>\<close>

text \<open>
  The tasks that \<^verbatim>\<open>asyncio.create_task\<close> has made for the sampling loop, in the order of
  their creation. A task is running until it returns or is cancelled; the loop leaves
  \<^verbatim>\<open>CancelledError\<close> uncaught (it catches \<^verbatim>\<open>Exception\<close> only), so a cancelled task ends.
\<close>

datatype task_state = Running | Cancelled | Finished

record runtime =
  collector :: MetricsCollector
  loop_tasks :: "task_state list"

definition new_runtime :: runtime where
  "new_runtime = \<lparr>collector = new_collector, loop_tasks = []\<rparr>"

definition start :: "runtime \<Rightarrow> runtime" where
  "start r =
     (let task = length (loop_tasks r)
      in \<lparr>collector = (collector r)\<lparr>is_running := True, collection_task := Some task\<rparr>,
          loop_tasks = loop_tasks r @ [Running]\<rparr>)"

text \<open>
  \<^verbatim>\<open>task.cancel()\<close> followed by \<^verbatim>\<open>await task\<close>: a running task is cancelled, a task that is
  done stays as it is, and the \<^verbatim>\<open>CancelledError\<close> of the await is swallowed.
\<close>

definition cancel_and_await :: "nat \<Rightarrow> task_state list \<Rightarrow> task_state list" where
  "cancel_and_await task ts =
     (if task < length ts \<and> ts ! task = Running then ts[task := Cancelled] else ts)"

definition stop :: "runtime \<Rightarrow> runtime" where
  "stop r =
     (let c = (collector r)\<lparr>is_running := False\<rparr>
      in case collection_task c of
           None \<Rightarrow> \<lparr>collector = c, loop_tasks = loop_tasks r\<rparr>
         | Some task \<Rightarrow> \<lparr>collector = c, loop_tasks = cancel_and_await task (loop_tasks r)\<rparr>)"

definition running_loops :: "runtime \<Rightarrow> nat" where
  "running_loops r = length (filter (\<lambda>s. s = Running) (loop_tasks r))"

section \<open>The incident analyzer: \<^verbatim>\<open>incident_analyzer.py\<close>\<close>

text \<open>
  An exception is a value; every exception of this model is a subclass of
  \<^verbatim>\<open>Exception\<close>. A function that may raise returns \<open>exn + 'a\<close>, with \<open>Inl\<close> for the
  exception raised.
\<close>

datatype exn = UpstreamError string | AttributeError string | KeyError string


subsection \<open>Strings\<close>








subsection \<open>The upstream sources\<close>

text \<open>
  The four clients are the sources of the adapters. A call either raises or returns
  its records; the records carry the keys the adapters read.
\<close>

record node =
  node_name :: string
  node_status :: string

record pod =
  pod_name :: string
  pod_namespace :: string
  pod_status :: string
  pod_restarts :: int











subsection \<open>\<^verbatim>\<open>_analyze_kubernetes_state\<close>\<close>





subsection \<open>\<^verbatim>\<open>_analyze_metrics\<close>\<close>





subsection \<open>\<^verbatim>\<open>_analyze_logs\<close>\<close>




subsection \<open>\<^verbatim>\<open>_analyze_traces\<close>\<close>



subsection \<open>\<^verbatim>\<open>analyze_incident\<close>\<close>













section \<open>Properties of the ranker\<close>

lemma find_filter_hd:
  "filter P xs \<noteq> [] \<Longrightarrow> find P xs = Some (hd (filter P xs))"
  by (induction xs) auto

lemma find_filter_Nil:
  "filter P xs = [] \<Longrightarrow> find P xs = None"
  by (induction xs) (auto split: if_splits)

text \<open>
  Claim C1. Root-cause ranking: the empty list gives "No issues detected" with
  confidence 1.0 and severity info; otherwise the first critical finding of the list,
  if there is one, gives its description with confidence 0.9 and severity critical;
  otherwise the first high finding, if there is one, gives its description with
  confidence 0.7 and severity high; otherwise the very first finding gives its
  description with confidence 0.5 and severity medium. The result is a function of
  the list alone. (\<open>find P xs\<close> is the first element of \<open>xs\<close> that satisfies \<open>P\<close>.)
\<close>

theorem determine_root_cause_ranking:
  "determine_root_cause findings =
     (case findings of
        [] \<Rightarrow> \<lparr>rc_root_cause = ''No issues detected'', rc_confidence = 1, rc_severity = INFO\<rparr>
      | first # _ \<Rightarrow>
          (case find (\<lambda>f. finding_severity f = CRITICAL) findings of
             Some c \<Rightarrow> \<lparr>rc_root_cause = finding_description c, rc_confidence = 9 / 10,
                        rc_severity = CRITICAL\<rparr>
           | None \<Rightarrow>
               (case find (\<lambda>f. finding_severity f = HIGH) findings of
                  Some h \<Rightarrow> \<lparr>rc_root_cause = finding_description h, rc_confidence = 7 / 10,
                             rc_severity = HIGH\<rparr>
                | None \<Rightarrow> \<lparr>rc_root_cause = finding_description first, rc_confidence = 1 / 2,
                           rc_severity = MEDIUM\<rparr>)))"
proof (cases findings)
  case Nil
  then show ?thesis by (simp add: determine_root_cause_def)
next
  case (Cons first rest)
  let ?crit = "filter (\<lambda>f. finding_severity f = CRITICAL) findings"
  let ?high = "filter (\<lambda>f. finding_severity f = HIGH) findings"
  show ?thesis
  proof (cases "?crit = []")
    case False
    from find_filter_hd [OF False] False Cons show ?thesis
      by (simp add: determine_root_cause_def Let_def)
  next
    case crit_empty: True
    show ?thesis
    proof (cases "?high = []")
      case False
      from find_filter_hd [OF False] find_filter_Nil [OF crit_empty] crit_empty False Cons
      show ?thesis by (simp add: determine_root_cause_def Let_def)
    next
      case True
      from find_filter_Nil [OF True] find_filter_Nil [OF crit_empty] crit_empty True Cons
      show ?thesis by (simp add: determine_root_cause_def Let_def)
    qed
  qed
qed

text \<open>
  The tie-break scenario of the specification: of two high findings in the order
  [B, A], B's description is the root cause.
\<close>

theorem determine_root_cause_ranking_witness:
  "determine_root_cause
     [\<lparr>finding_type = ''pod_crash_loop'', finding_severity = HIGH,
       finding_resource = Some ''pod/default/b'', finding_description = ''B'',
       suggested_actions = [], sample_messages = None\<rparr>,
      \<lparr>finding_type = ''pod_crash_loop'', finding_severity = HIGH,
       finding_resource = Some ''pod/default/a'', finding_description = ''A'',
       suggested_actions = [], sample_messages = None\<rparr>]
   = \<lparr>rc_root_cause = ''B'', rc_confidence = 7 / 10, rc_severity = HIGH\<rparr>"
  by (simp add: determine_root_cause_ranking)

section \<open>Properties of the action plan\<close>

lemma numbered_steps_append:
  "numbered_steps n (ps @ qs) = numbered_steps n ps @ numbered_steps (n + length ps) qs"
  by (induction ps arbitrary: n) auto

lemma length_numbered_steps: "length (numbered_steps n ps) = length ps"
  by (induction ps arbitrary: n) auto

lemma append_actions_numbered:
  "append_actions f as steps =
     steps @ numbered_steps (length steps + 1) (map (\<lambda>a. (a, finding_type f)) as)"
proof (induction as arbitrary: steps)
  case Nil
  show ?case by simp
next
  case (Cons a as)
  show ?case by (simp add: Cons.IH derived_step_def)
qed

lemma append_findings_numbered:
  "append_findings fs steps =
     steps @ numbered_steps (length steps + 1)
       (concat (map (\<lambda>f. map (\<lambda>a. (a, finding_type f)) (take 2 (suggested_actions f))) fs))"
proof (induction fs arbitrary: steps)
  case Nil
  show ?case by simp
next
  case (Cons f fs)
  show ?case
    by (simp add: Cons.IH append_actions_numbered numbered_steps_append
        length_numbered_steps add.commute add.left_commute)
qed

lemma sum_durations_numbered:
  "sum_list (map estimated_duration (numbered_steps n ps)) = 15 * length ps"
  by (induction ps arbitrary: n) (auto simp: derived_step_def)

lemma filter_critical_numbered: "filter critical (numbered_steps n ps) = []"
  by (induction ps arbitrary: n) (auto simp: derived_step_def)

lemma length_concat_take_le:
  "length (concat (map (\<lambda>f. map (g f) (take 2 (h f))) fs)) \<le> 2 * length fs"
  by (induction fs) auto

lemma length_derived_actions: "length (derived_actions fs) \<le> 6"
proof -
  have "length (derived_actions fs) \<le> 2 * length (take 3 fs)"
    unfolding derived_actions_def by (rule length_concat_take_le)
  also have "\<dots> \<le> 6" by simp
  finally show ?thesis .
qed

lemma plan_steps_generate:
  "plan_steps (generate_action_plan rc fs) =
     [acknowledge_step, gather_step] @ numbered_steps 3 (derived_actions fs) @
     [verify_step (length (derived_actions fs) + 3)]"
  by (simp add: generate_action_plan_def Let_def append_findings_numbered derived_actions_def
      length_numbered_steps eval_nat_numeral)

text \<open>
  Claim C4. The plan begins with the two fixed critical steps (acknowledge, 5 minutes;
  gather, 10 minutes); then come, for each of the first three findings in order, the
  first two of its suggested actions, each a non-critical 15-minute step tagged with
  the type of its finding (at most six such steps, numbered consecutively from 3); the
  plan ends with the fixed critical verification step (10 minutes). The total duration
  is the sum of the durations of the steps, that is 25 plus 15 for each derived step,
  and the critical steps are the critical ones of the plan in their order: the two
  opening steps and the closing one.
\<close>

theorem generate_action_plan_shape:
  "plan_steps (generate_action_plan rc fs) =
     [acknowledge_step, gather_step] @ numbered_steps 3 (derived_actions fs) @
     [verify_step (length (derived_actions fs) + 3)]
   \<and> length (derived_actions fs) \<le> 6
   \<and> total_steps (generate_action_plan rc fs) = length (plan_steps (generate_action_plan rc fs))
   \<and> estimated_total_duration (generate_action_plan rc fs) =
       sum_list (map estimated_duration (plan_steps (generate_action_plan rc fs)))
   \<and> estimated_total_duration (generate_action_plan rc fs) =
       25 + 15 * length (derived_actions fs)
   \<and> critical_steps (generate_action_plan rc fs) =
       filter critical (plan_steps (generate_action_plan rc fs))
   \<and> critical_steps (generate_action_plan rc fs) =
       [acknowledge_step, gather_step, verify_step (length (derived_actions fs) + 3)]
   \<and> plan_root_cause (generate_action_plan rc fs) = rc"
proof -
  have meta:
    "total_steps (generate_action_plan rc fs) = length (plan_steps (generate_action_plan rc fs))"
    "estimated_total_duration (generate_action_plan rc fs) =
       sum_list (map estimated_duration (plan_steps (generate_action_plan rc fs)))"
    "critical_steps (generate_action_plan rc fs) =
       filter critical (plan_steps (generate_action_plan rc fs))"
    "plan_root_cause (generate_action_plan rc fs) = rc"
    by (simp_all add: generate_action_plan_def Let_def)
  have dur: "estimated_total_duration (generate_action_plan rc fs) =
      25 + 15 * length (derived_actions fs)"
    by (simp add: meta(2) plan_steps_generate sum_durations_numbered acknowledge_step_def
        gather_step_def verify_step_def)
  have crit: "critical_steps (generate_action_plan rc fs) =
      [acknowledge_step, gather_step, verify_step (length (derived_actions fs) + 3)]"
    by (simp add: meta(3) plan_steps_generate filter_critical_numbered acknowledge_step_def
        gather_step_def verify_step_def)
  from plan_steps_generate length_derived_actions meta dur crit show ?thesis by blast
qed

text \<open>
  A plan for two findings: the first with three suggested actions (only two are
  taken), the second with none.
\<close>

theorem generate_action_plan_shape_witness:
  "plan_steps (generate_action_plan ''Node n1 is not ready''
     [\<lparr>finding_type = ''node_not_ready'', finding_severity = CRITICAL,
       finding_resource = Some ''node/n1'', finding_description = ''Node n1 is not ready'',
       suggested_actions = [''a1'', ''a2'', ''a3''], sample_messages = None\<rparr>,
      \<lparr>finding_type = ''kubernetes_warning'', finding_severity = MEDIUM,
       finding_resource = Some ''Pod/default/p'', finding_description = ''BackOff: restarting'',
       suggested_actions = [], sample_messages = None\<rparr>])
   = [\<lparr>step_no = 1, action = ''Acknowledge the incident and assess impact'',
       estimated_duration = 5, critical = True, related_finding = None\<rparr>,
      \<lparr>step_no = 2, action = ''Gather additional context and metrics'',
       estimated_duration = 10, critical = True, related_finding = None\<rparr>,
      \<lparr>step_no = 3, action = ''a1'', estimated_duration = 15, critical = False,
       related_finding = Some ''node_not_ready''\<rparr>,
      \<lparr>step_no = 4, action = ''a2'', estimated_duration = 15, critical = False,
       related_finding = Some ''node_not_ready''\<rparr>,
      \<lparr>step_no = 5, action = ''Verify resolution and monitor system stability'',
       estimated_duration = 10, critical = True, related_finding = None\<rparr>]"
  using generate_action_plan_shape [of "''Node n1 is not ready''"
     "[\<lparr>finding_type = ''node_not_ready'', finding_severity = CRITICAL,
       finding_resource = Some ''node/n1'', finding_description = ''Node n1 is not ready'',
       suggested_actions = [''a1'', ''a2'', ''a3''], sample_messages = None\<rparr>,
      \<lparr>finding_type = ''kubernetes_warning'', finding_severity = MEDIUM,
       finding_resource = Some ''Pod/default/p'', finding_description = ''BackOff: restarting'',
       suggested_actions = [], sample_messages = None\<rparr>]"]
  by (simp add: derived_actions_def derived_step_def acknowledge_step_def gather_step_def
      verify_step_def)

section \<open>Properties of the sampler\<close>






lemma slice_last_props:
  "length (slice_last n xs) = min n (length xs)" "take (length xs - n) xs @ slice_last n xs = xs"
  by (simp_all add: slice_last_def)

lemma clean_loop_filter:
  "distinct (map fst d) \<Longrightarrow> distinct ks \<Longrightarrow> set ks \<subseteq> fst ` set d \<Longrightarrow>
   clean_loop ks cutoff d =
     filter (\<lambda>p. fst p \<in> set ks \<longrightarrow> \<not> entry_timestamp (snd p) < cutoff) d"
proof (induction ks arbitrary: d)
  case Nil
  show ?case by simp
next
  case (Cons k ks)
  from Cons.prems(3) have "k \<in> fst ` set d" by simp
  then obtain e where mem: "(k, e) \<in> set d" by auto
  with Cons.prems(1) have e: "map_of d k = Some e" by simp
  have uniq: "snd p = e" if "p \<in> set d" "fst p = k" for p
  proof -
    from that have "(k, snd p) \<in> set d" by (metis prod.collapse)
    with Cons.prems(1) have "map_of d k = Some (snd p)" by simp
    with e show ?thesis by simp
  qed
  from Cons.prems(2) have k_new: "k \<notin> set ks" and ks: "distinct ks" by simp_all
  show ?case
  proof (cases "entry_timestamp e < cutoff")
    case True
    let ?d = "AList.delete k d"
    have d1: "distinct (map fst ?d)" using Cons.prems(1) by (rule distinct_delete)
    have "set (map fst ?d) = set (map fst d) - {k}"
      by (simp add: delete_keys)
    then have keys: "fst ` set ?d = fst ` set d - {k}" by simp
    have d2: "set ks \<subseteq> fst ` set ?d"
      unfolding keys using Cons.prems(3) k_new by auto
    have "clean_loop (k # ks) cutoff d = clean_loop ks cutoff ?d"
      using e True by simp
    also have "\<dots> = filter (\<lambda>p. fst p \<in> set ks \<longrightarrow> \<not> entry_timestamp (snd p) < cutoff) ?d"
      by (rule Cons.IH [OF d1 ks d2])
    also have "\<dots> = filter (\<lambda>p. fst p \<in> set (k # ks) \<longrightarrow> \<not> entry_timestamp (snd p) < cutoff) d"
      unfolding AList.delete_eq filter_filter
      by (rule filter_cong) (use True uniq in \<open>auto\<close>)
    finally show ?thesis .
  next
    case False
    have "clean_loop (k # ks) cutoff d = clean_loop ks cutoff d"
      using e False by simp
    also have "\<dots> = filter (\<lambda>p. fst p \<in> set ks \<longrightarrow> \<not> entry_timestamp (snd p) < cutoff) d"
    proof (rule Cons.IH [OF Cons.prems(1) ks])
      show "set ks \<subseteq> fst ` set d" using Cons.prems(3) by simp
    qed
    also have "\<dots> = filter (\<lambda>p. fst p \<in> set (k # ks) \<longrightarrow> \<not> entry_timestamp (snd p) < cutoff) d"
      by (rule filter_cong) (use False uniq in \<open>auto\<close>)
    finally show ?thesis .
  qed
qed

lemma clean_old_metrics_filter:
  assumes "distinct (map fst (collected_metrics c))"
  shows "collected_metrics (clean_old_metrics c now) =
     filter (\<lambda>p. \<not> entry_timestamp (snd p) < now - hours 6) (collected_metrics c)"
proof -
  have "clean_loop (map fst (collected_metrics c)) (now - hours 6) (collected_metrics c) =
     filter (\<lambda>p. fst p \<in> set (map fst (collected_metrics c)) \<longrightarrow>
                   \<not> entry_timestamp (snd p) < now - hours 6) (collected_metrics c)"
    using assms by (intro clean_loop_filter) auto
  also have "\<dots> = filter (\<lambda>p. \<not> entry_timestamp (snd p) < now - hours 6) (collected_metrics c)"
    by (rule filter_cong) auto
  finally show ?thesis by (simp add: clean_old_metrics_def Let_def)
qed

lemma collected_detect [simp]:
  "collected_metrics (detect_anomalies c now) = collected_metrics c"
  by (simp add: detect_anomalies_def Let_def)

lemma store_tick_inv:
  assumes "distinct (map fst d)" "fst ` set d \<subseteq> store_keys"
  shows "distinct (map fst (store_tick d t))" "fst ` set (store_tick d t) \<subseteq> store_keys"
  using assms by (simp_all add: store_tick_def Let_def distinct_update dom_update store_keys_def)

lemma store_inv_tick:
  assumes "store_inv c"
  shows "store_inv (collect_all_metrics c t)"
proof -
  let ?d = "store_tick (collected_metrics c) t"
  from assms have d: "distinct (map fst ?d)" "fst ` set ?d \<subseteq> store_keys"
    by (simp_all add: store_inv_def store_tick_inv)
  have eq: "collected_metrics (collect_all_metrics c t) =
      filter (\<lambda>p. \<not> entry_timestamp (snd p) < tick_clean_time t - hours 6) ?d"
    using d(1) by (simp add: collect_all_metrics_def Let_def clean_old_metrics_filter)
  from d show ?thesis
    unfolding store_inv_def eq by (auto simp: distinct_map_filter)
qed

lemma store_inv_run: "store_inv c \<Longrightarrow> store_inv (run_ticks c ts)"
  unfolding run_ticks_def by (induction ts arbitrary: c) (auto simp: store_inv_tick)

lemma tick_fresh:
  assumes "store_inv c" "p \<in> set (collected_metrics (collect_all_metrics c t))"
  shows "entry_timestamp (snd p) \<ge> tick_clean_time t - hours 6"
proof -
  let ?d = "store_tick (collected_metrics c) t"
  from assms(1) have d: "distinct (map fst ?d)"
    by (simp add: store_inv_def store_tick_inv store_keys_def)
  have eq: "collected_metrics (collect_all_metrics c t) =
      filter (\<lambda>p. \<not> entry_timestamp (snd p) < tick_clean_time t - hours 6) ?d"
    using d by (simp add: collect_all_metrics_def Let_def clean_old_metrics_filter)
  from assms(2) show ?thesis unfolding eq by simp
qed

lemma store_inv_length: "store_inv c \<Longrightarrow> length (collected_metrics c) \<le> 3"
proof -
  assume a: "store_inv c"
  then have "distinct (map fst (collected_metrics c))" by (simp add: store_inv_def)
  from distinct_card [OF this]
  have "length (collected_metrics c) = card (fst ` set (collected_metrics c))" by simp
  also have "\<dots> \<le> card store_keys"
    using a by (intro card_mono) (auto simp: store_inv_def store_keys_def)
  also have "\<dots> \<le> 3" by (simp add: store_keys_def card_insert_if)
  finally show ?thesis .
qed










text \<open>
  Claim C5. After \<^verbatim>\<open>_detect_anomalies\<close>, and so after every sampling tick, the anomaly
  log holds at most 100 entries: it is the old log followed by the new anomalies, less
  a prefix (the oldest entries), so that the retained entries keep their order.
\<close>

theorem anomaly_log_capacity:
  "length (anomalies (detect_anomalies c now)) \<le> 100
   \<and> length (anomalies (detect_anomalies c now)) =
       min 100 (length (anomalies c) + length (detected_anomalies (collected_metrics c) now))
   \<and> (\<exists>evicted. anomalies c @ detected_anomalies (collected_metrics c) now =
                     evicted @ anomalies (detect_anomalies c now))
   \<and> anomalies (collect_all_metrics c t) =
       anomalies (detect_anomalies (c\<lparr>collected_metrics := store_tick (collected_metrics c) t\<rparr>)
                    (tick_detect_time t))
   \<and> length (anomalies (collect_all_metrics c t)) \<le> 100"
proof -
  let ?all = "anomalies c @ detected_anomalies (collected_metrics c) now"
  have log: "anomalies (detect_anomalies c' now') =
      slice_last 100 (anomalies c' @ detected_anomalies (collected_metrics c') now')" for c' now'
    by (simp add: detect_anomalies_def Let_def slice_last_def)
  have len: "length (anomalies (detect_anomalies c' now')) \<le> 100" for c' now'
    by (simp add: log slice_last_props(1))
  have "take (length ?all - 100) ?all @ anomalies (detect_anomalies c now) = ?all"
    unfolding log by (rule slice_last_props(2))
  then have ex: "\<exists>evicted. ?all = evicted @ anomalies (detect_anomalies c now)"
    by metis
  have tick: "anomalies (collect_all_metrics c t) =
       anomalies (detect_anomalies (c\<lparr>collected_metrics := store_tick (collected_metrics c) t\<rparr>)
                    (tick_detect_time t))"
    by (simp add: collect_all_metrics_def Let_def clean_old_metrics_def)
  have "length (anomalies (detect_anomalies c now)) =
       min 100 (length (anomalies c) + length (detected_anomalies (collected_metrics c) now))"
    by (simp add: log slice_last_props(1))
  with len [of c now] ex tick len show ?thesis by simp
qed

text \<open>
  Claim C6. After any sequence of sampling ticks of a new collector, every entry
  retained in \<^verbatim>\<open>_collected_metrics\<close> has a timestamp no older than six hours before the
  clock reading of the last clean-up, and the store holds at most three entries (the
  keys \<^verbatim>\<open>cluster\<close>, \<^verbatim>\<open>nodes\<close> and \<^verbatim>\<open>pods\<close>).
\<close>

theorem rolling_window_invariant:
  "(\<forall>p \<in> set (collected_metrics (run_ticks new_collector (ts @ [t]))).
       entry_timestamp (snd p) \<ge> tick_clean_time t - hours 6)
   \<and> fst ` set (collected_metrics (run_ticks new_collector (ts @ [t]))) \<subseteq>
       {''cluster'', ''nodes'', ''pods''}
   \<and> length (collected_metrics (run_ticks new_collector (ts @ [t]))) \<le> 3"
proof -
  have init: "store_inv new_collector"
    by (simp add: store_inv_def new_collector_def)
  let ?c = "run_ticks new_collector ts"
  have run: "run_ticks new_collector (ts @ [t]) = collect_all_metrics ?c t"
    by (simp add: run_ticks_def)
  have inv: "store_inv ?c" by (rule store_inv_run [OF init])
  have inv': "store_inv (collect_all_metrics ?c t)" by (rule store_inv_tick [OF inv])
  have keys: "fst ` set (collected_metrics (collect_all_metrics ?c t)) \<subseteq>
      {''cluster'', ''nodes'', ''pods''}"
    using inv' by (simp add: store_inv_def store_keys_def)
  from tick_fresh [OF inv] keys store_inv_length [OF inv'] show ?thesis
    unfolding run by blast
qed

text \<open>One tick of a new collector.\<close>

theorem rolling_window_invariant_witness:
  "list_all (\<lambda>p. entry_timestamp (snd p) \<ge> 3000 - hours 6)
     (collected_metrics (run_ticks new_collector ([] @ [sample_tick])))
   \<and> map fst (collected_metrics (run_ticks new_collector ([] @ [sample_tick]))) =
       [''cluster'', ''nodes'', ''pods'']"
proof -
  have "tick_clean_time sample_tick = 3000" by (simp add: sample_tick_def)
  with rolling_window_invariant [of "[]" sample_tick]
  have "list_all (\<lambda>p. entry_timestamp (snd p) \<ge> 3000 - hours 6)
     (collected_metrics (run_ticks new_collector ([] @ [sample_tick])))"
    by (simp add: list_all_iff)
  moreover have "map fst (collected_metrics (run_ticks new_collector ([] @ [sample_tick]))) =
       [''cluster'', ''nodes'', ''pods'']"
    by (simp add: run_ticks_def collect_all_metrics_def store_tick_def Let_def
        clean_old_metrics_def new_collector_def sample_tick_def hours_def)
  ultimately show ?thesis by simp
qed

section \<open>Properties of the summary\<close>





text \<open>
  Claim C10. While the store of collected metrics is empty, the health score of the
  summary is 70: the ready nodes default to 0 and the total to 1, so the deduction of
  30 applies.
\<close>

theorem health_score_without_metrics:
  "collected_metrics c = [] \<Longrightarrow> cluster_health_score (get_metrics_summary c clock) = 70"
  by (simp add: get_metrics_summary_def Let_def stored_cluster_metrics_def
      empty_cluster_metrics_def health_score_def get_default_def)

text \<open>A collector as \<^verbatim>\<open>__init__\<close> leaves it.\<close>

theorem health_score_without_metrics_witness:
  "collected_metrics new_collector = []
   \<and> cluster_health_score (get_metrics_summary new_collector (stopped_clock 0)) = 70"
proof -
  have e: "collected_metrics new_collector = []" by (simp add: new_collector_def)
  from health_score_without_metrics [OF e, of "stopped_clock 0"] e show ?thesis by simp
qed

text \<open>
  Two calls on the same state with no tick between them, at different instants. On a
  new collector the summaries differ (in their \<^verbatim>\<open>timestamp\<close>). After one tick, on a
  store with three entries stamped 1000 and a log of two anomalies stamped 2000, the
  \<^verbatim>\<open>timestamp\<close>, the \<^verbatim>\<open>metrics_age_minutes\<close> and the \<^verbatim>\<open>recent_anomalies\<close> all differ
  between a call at 4000 and a call one hour later.
\<close>

theorem summary_not_idempotent_counterexample:
  "get_metrics_summary new_collector (stopped_clock 0) \<noteq>
   get_metrics_summary new_collector (stopped_clock 1)
   \<and> summary_timestamp
       (get_metrics_summary (collect_all_metrics new_collector sample_tick)
          (stopped_clock 4000)) = 4000
   \<and> summary_timestamp
       (get_metrics_summary (collect_all_metrics new_collector sample_tick)
          (stopped_clock 3600004000)) = 3600004000
   \<and> metrics_age_minutes
       (get_metrics_summary (collect_all_metrics new_collector sample_tick)
          (stopped_clock 4000)) = 3000 / 1000000 / 60
   \<and> metrics_age_minutes
       (get_metrics_summary (collect_all_metrics new_collector sample_tick)
          (stopped_clock 3600004000)) = 3600003000 / 1000000 / 60
   \<and> recent_anomalies
       (get_metrics_summary (collect_all_metrics new_collector sample_tick)
          (stopped_clock 4000)) = 2
   \<and> recent_anomalies
       (get_metrics_summary (collect_all_metrics new_collector sample_tick)
          (stopped_clock 3600004000)) = 0
   \<and> get_metrics_summary (collect_all_metrics new_collector sample_tick)
         (stopped_clock 4000) \<noteq>
       get_metrics_summary (collect_all_metrics new_collector sample_tick)
         (stopped_clock 3600004000)"
proof -
  have st: "collect_all_metrics new_collector sample_tick =
     \<lparr>is_running = False, collection_task = None,
      collected_metrics =
        [(''cluster'', \<lparr>entry_timestamp = 1000,
                        entry_metrics = ClusterMetrics (tick_cluster sample_tick)\<rparr>),
         (''nodes'', \<lparr>entry_timestamp = 1000,
                      entry_metrics = NodeMetrics (tick_nodes sample_tick)\<rparr>),
         (''pods'', \<lparr>entry_timestamp = 1000,
                     entry_metrics = PodMetrics (tick_pods sample_tick)\<rparr>)],
      anomalies = detected_anomalies (store_tick [] sample_tick) 2000\<rparr>"
    by (simp add: collect_all_metrics_def store_tick_def Let_def clean_old_metrics_def
        detect_anomalies_def detected_anomalies_def check_node_def new_collector_def
        sample_tick_def stored_cluster_metrics_def stored_node_metrics_def get_default_def
        hours_def)
  have log: "map anomaly_timestamp (detected_anomalies (store_tick [] sample_tick) 2000) =
     [2000, 2000]"
    by (simp add: store_tick_def Let_def detected_anomalies_def check_node_def sample_tick_def
        stored_cluster_metrics_def stored_node_metrics_def get_default_def)
  have recent: "length (recent_loop log (stopped_clock 4000) k) = 2"
    "length (recent_loop log (stopped_clock 3600004000) k) = 0"
    if "map anomaly_timestamp log = [2000, 2000]" for log k
    using that by (auto simp: stopped_clock_def minutes_def)
  have new: "get_metrics_summary new_collector (stopped_clock 0) \<noteq>
     get_metrics_summary new_collector (stopped_clock 1)"
    by (simp add: get_metrics_summary_def Let_def stopped_clock_def)
  have ts: "summary_timestamp (get_metrics_summary c (stopped_clock t)) = t" for c t
    by (simp add: get_metrics_summary_def Let_def stopped_clock_def)
  have age: "metrics_age_minutes
       (get_metrics_summary (collect_all_metrics new_collector sample_tick) (stopped_clock t)) =
     real_of_int (t - 1000) / 1000000 / 60" for t
    unfolding st
    by (simp add: get_metrics_summary_def Let_def stopped_clock_def get_metrics_age_minutes_def)
  have rec: "recent_anomalies
       (get_metrics_summary (collect_all_metrics new_collector sample_tick)
          (stopped_clock 4000)) = 2"
    "recent_anomalies
       (get_metrics_summary (collect_all_metrics new_collector sample_tick)
          (stopped_clock 3600004000)) = 0"
    unfolding st by (simp_all add: get_metrics_summary_def Let_def recent [OF log])
  have "summary_timestamp
       (get_metrics_summary (collect_all_metrics new_collector sample_tick)
          (stopped_clock 4000)) \<noteq>
     summary_timestamp
       (get_metrics_summary (collect_all_metrics new_collector sample_tick)
          (stopped_clock 3600004000))"
    unfolding ts by simp
  then have diff: "get_metrics_summary (collect_all_metrics new_collector sample_tick)
         (stopped_clock 4000) \<noteq>
       get_metrics_summary (collect_all_metrics new_collector sample_tick)
         (stopped_clock 3600004000)"
    by metis
  from new ts age [of 4000] age [of 3600004000] rec diff show ?thesis by simp
qed

lemma recent_loop_cong:
  "(\<And>i. i < length as \<Longrightarrow> k1 (n + i) = k2 (n + i)) \<Longrightarrow>
   recent_loop as k1 n = recent_loop as k2 n"
proof (induction as arbitrary: n)
  case Nil
  show ?case by simp
next
  case (Cons a as)
  from Cons.prems [of 0] have h: "k1 n = k2 n" by simp
  have "recent_loop as k1 (Suc n) = recent_loop as k2 (Suc n)"
  proof (rule Cons.IH)
    fix i assume "i < length as"
    with Cons.prems [of "Suc i"] show "k1 (Suc n + i) = k2 (Suc n + i)" by simp
  qed
  with h show ?case by simp
qed

text \<open>
  Claim C8, as amended. Two calls of \<^verbatim>\<open>get_metrics_summary\<close> on the same state return
  the same health score, cluster metrics, node count and pod count, whatever the
  clock shows. The \<^verbatim>\<open>timestamp\<close> of a summary is the first clock reading of its call;
  \<^verbatim>\<open>recent_anomalies\<close> and \<^verbatim>\<open>metrics_age_minutes\<close> are computed from the later readings.
  The two summaries are equal whenever the two calls read the same clock values, and
  they differ whenever the first readings of the two calls differ.
\<close>

theorem summary_clock_dependence:
  "cluster_health_score (get_metrics_summary c k1) =
     cluster_health_score (get_metrics_summary c k2)
   \<and> summary_cluster_metrics (get_metrics_summary c k1) =
     summary_cluster_metrics (get_metrics_summary c k2)
   \<and> node_count (get_metrics_summary c k1) = node_count (get_metrics_summary c k2)
   \<and> pod_count (get_metrics_summary c k1) = pod_count (get_metrics_summary c k2)
   \<and> summary_timestamp (get_metrics_summary c k1) = k1 0
   \<and> ((\<forall>i \<le> Suc (length (anomalies c)). k1 i = k2 i) \<longrightarrow>
        get_metrics_summary c k1 = get_metrics_summary c k2)
   \<and> (k1 0 \<noteq> k2 0 \<longrightarrow> get_metrics_summary c k1 \<noteq> get_metrics_summary c k2)"
proof -
  have same: "get_metrics_summary c k1 = get_metrics_summary c k2"
    if h: "\<forall>i \<le> Suc (length (anomalies c)). k1 i = k2 i"
  proof -
    have "recent_loop (anomalies c) k1 1 = recent_loop (anomalies c) k2 1"
      by (rule recent_loop_cong) (use h in simp)
    with h show ?thesis by (simp add: get_metrics_summary_def Let_def)
  qed
  have ts: "summary_timestamp (get_metrics_summary c k) = k 0" for k
    by (simp add: get_metrics_summary_def Let_def)
  have differ: "get_metrics_summary c k1 \<noteq> get_metrics_summary c k2" if "k1 0 \<noteq> k2 0"
  proof
    assume "get_metrics_summary c k1 = get_metrics_summary c k2"
    then have "summary_timestamp (get_metrics_summary c k1) =
        summary_timestamp (get_metrics_summary c k2)"
      by simp
    with ts that show False by simp
  qed
  have fields:
    "cluster_health_score (get_metrics_summary c k1) =
       cluster_health_score (get_metrics_summary c k2)"
    "summary_cluster_metrics (get_metrics_summary c k1) =
       summary_cluster_metrics (get_metrics_summary c k2)"
    "node_count (get_metrics_summary c k1) = node_count (get_metrics_summary c k2)"
    "pod_count (get_metrics_summary c k1) = pod_count (get_metrics_summary c k2)"
    by (simp_all add: get_metrics_summary_def Let_def)
  from fields ts [of k1] same differ show ?thesis by blast
qed

text \<open>
  After one tick with two anomalies in the log, a call reads the clock four times
  (readings 0 to 3).
\<close>

theorem summary_clock_dependence_witness:
  "get_metrics_summary (collect_all_metrics new_collector sample_tick) (stopped_clock 5000) =
   get_metrics_summary (collect_all_metrics new_collector sample_tick)
     (\<lambda>k. if k \<le> 3 then 5000 else 9000)
   \<and> cluster_health_score
       (get_metrics_summary (collect_all_metrics new_collector sample_tick) (stopped_clock 0)) =
     cluster_health_score
       (get_metrics_summary (collect_all_metrics new_collector sample_tick) (stopped_clock 1))
   \<and> get_metrics_summary (collect_all_metrics new_collector sample_tick) (stopped_clock 0) \<noteq>
     get_metrics_summary (collect_all_metrics new_collector sample_tick) (stopped_clock 1)"
proof -
  have len: "length (anomalies (collect_all_metrics new_collector sample_tick)) = 2"
    by (simp add: collect_all_metrics_def store_tick_def Let_def clean_old_metrics_def
        detect_anomalies_def detected_anomalies_def check_node_def new_collector_def
        sample_tick_def stored_cluster_metrics_def stored_node_metrics_def get_default_def)
  have agree: "\<forall>i \<le> Suc (length (anomalies (collect_all_metrics new_collector sample_tick))).
      stopped_clock 5000 i = (if i \<le> 3 then 5000 else 9000)"
    unfolding len by (simp add: stopped_clock_def)
  have first: "stopped_clock 0 0 \<noteq> stopped_clock 1 0"
    by (simp add: stopped_clock_def)
  from summary_clock_dependence
    [of "collect_all_metrics new_collector sample_tick" "stopped_clock 5000"
        "\<lambda>k. if k \<le> 3 then 5000 else 9000"] agree
  have "get_metrics_summary (collect_all_metrics new_collector sample_tick) (stopped_clock 5000) =
     get_metrics_summary (collect_all_metrics new_collector sample_tick)
       (\<lambda>k. if k \<le> 3 then 5000 else 9000)"
    by blast
  moreover note th = summary_clock_dependence
    [of "collect_all_metrics new_collector sample_tick" "stopped_clock 0" "stopped_clock 1"]
  from th have "cluster_health_score
       (get_metrics_summary (collect_all_metrics new_collector sample_tick) (stopped_clock 0)) =
     cluster_health_score
       (get_metrics_summary (collect_all_metrics new_collector sample_tick) (stopped_clock 1))"
    by blast
  moreover from th first
  have "get_metrics_summary (collect_all_metrics new_collector sample_tick) (stopped_clock 0) \<noteq>
     get_metrics_summary (collect_all_metrics new_collector sample_tick) (stopped_clock 1)"
    by blast
  ultimately show ?thesis by simp
qed

section \<open>Properties of the lifecycle\<close>

lemma cancel_and_await_idem:
  "cancel_and_await task (cancel_and_await task ts) = cancel_and_await task ts"
  by (simp add: cancel_and_await_def)

lemma cancel_and_await_not_running:
  "task < length ts \<Longrightarrow> cancel_and_await task ts ! task \<noteq> Running"
  by (simp add: cancel_and_await_def)

lemma running_loops_start: "running_loops (start r) = Suc (running_loops r)"
  by (simp add: running_loops_def start_def Let_def)

text \<open>
  From a new collector, one call of \<^verbatim>\<open>start\<close> leaves one running loop and two calls
  leave two: the states differ.
\<close>

theorem start_twice_counterexample:
  "start (start new_runtime) \<noteq> start new_runtime
   \<and> running_loops (start new_runtime) = 1
   \<and> running_loops (start (start new_runtime)) = 2"
  by (simp add: start_def Let_def new_runtime_def running_loops_def)

text \<open>
  Claim C9, as amended. \<^verbatim>\<open>stop\<close> is idempotent: from any state, two calls in succession
  leave the state that one call leaves, with the flag cleared and the task of the
  handle no longer running. \<^verbatim>\<open>start\<close> sets the flag, creates one more running loop and
  stores its handle, without cancelling the loop of the previous handle: two calls in
  succession leave two more running loops.
\<close>

theorem stop_idempotent_start_accumulates:
  "stop (stop r) = stop r
   \<and> \<not> is_running (collector (stop r))
   \<and> (\<forall>task. collection_task (collector r) = Some task \<and> task < length (loop_tasks r)
        \<longrightarrow> loop_tasks (stop r) ! task \<noteq> Running)
   \<and> is_running (collector (start r))
   \<and> collection_task (collector (start r)) = Some (length (loop_tasks r))
   \<and> loop_tasks (start r) = loop_tasks r @ [Running]
   \<and> running_loops (start r) = Suc (running_loops r)
   \<and> running_loops (start (start r)) = Suc (Suc (running_loops r))"
proof -
  have idem: "stop (stop r) = stop r"
    by (cases "collection_task (collector r)")
       (simp_all add: stop_def Let_def cancel_and_await_idem)
  have flag: "\<not> is_running (collector (stop r))"
    by (cases "collection_task (collector r)") (simp_all add: stop_def Let_def)
  have ended: "loop_tasks (stop r) ! task \<noteq> Running"
    if "collection_task (collector r) = Some task" "task < length (loop_tasks r)" for task
    using that by (simp add: stop_def Let_def cancel_and_await_not_running)
  have started: "is_running (collector (start r))"
    "collection_task (collector (start r)) = Some (length (loop_tasks r))"
    "loop_tasks (start r) = loop_tasks r @ [Running]"
    by (simp_all add: start_def Let_def)
  have twice: "running_loops (start (start r)) = Suc (Suc (running_loops r))"
    by (simp add: running_loops_start)
  from idem flag ended started running_loops_start twice show ?thesis by blast
qed

text \<open>Starting a new collector once or twice, and stopping it twice.\<close>

theorem stop_idempotent_start_accumulates_witness:
  "stop (stop (start new_runtime)) = stop (start new_runtime)
   \<and> running_loops (stop (start new_runtime)) = 0
   \<and> loop_tasks (stop (start new_runtime)) ! 0 \<noteq> Running
   \<and> running_loops (start (start new_runtime)) = 2"
proof -
  note th = stop_idempotent_start_accumulates [of "start new_runtime"]
  note th0 = stop_idempotent_start_accumulates [of new_runtime]
  have h: "collection_task (collector (start new_runtime)) = Some 0 \<and>
      0 < length (loop_tasks (start new_runtime))"
    by (simp add: start_def Let_def new_runtime_def)
  from th have "stop (stop (start new_runtime)) = stop (start new_runtime)" by blast
  moreover from th h have "loop_tasks (stop (start new_runtime)) ! 0 \<noteq> Running" by blast
  moreover have "running_loops (stop (start new_runtime)) = 0"
    by (simp add: running_loops_def stop_def start_def Let_def new_runtime_def
        cancel_and_await_def new_collector_def)
  moreover from th0 have "running_loops (start (start new_runtime)) = 2"
    by (simp add: running_loops_def new_runtime_def)
  ultimately show ?thesis by simp
qed

section \<open>Properties of the analyzer\<close>


















end
